theory Spec2Isabelle
  imports Main
begin

section \<open>The home-tab handler of listeners/events/app\_home\_opened.py\<close>

text \<open>
  The file holds one procedure, \<^verbatim>\<open>app_home_opened_callback(event, logger, client)\<close>.
  It calls four collaborators that live outside the file: the provider registry
  (\<^verbatim>\<open>get_available_providers\<close>), the user-state store (\<^verbatim>\<open>get_redis_user_state\<close>,
  \<^verbatim>\<open>set_redis_user_state\<close>) and the platform client (\<^verbatim>\<open>client.views_publish\<close>), and it
  reads two environment variables. The embedding takes what these collaborators answer
  as a parameter (the record \<open>world\<close>) and returns, besides the result of the
  procedure, the list of effects in the order the procedure performs them.
\<close>

subsection \<open>Strings\<close>

text \<open>
  A string is the list of the bytes of its UTF-8 encoding. Concatenation, the test for
  the empty string and \<^verbatim>\<open>startswith\<close> are the same on code points and on these bytes.
  Python's \<^verbatim>\<open>str.lower\<close> follows the Unicode case tables, which are no part of the
  sources: the procedure takes it as a parameter (the field \<open>str_lower\<close> of the record
  \<open>world\<close> below), and nothing is assumed of it.

  On strings of ASCII characters \<^verbatim>\<open>str.lower\<close> is the function \<open>ascii_lower\<close>: the
  letters \<^verbatim>\<open>A\<close> to \<^verbatim>\<open>Z\<close> (codes 65 to 90) get bit 5 set, every other character is
  kept. It stands for \<^verbatim>\<open>str.lower\<close> in the example inputs, whose strings are ASCII.
\<close>

fun ascii_lower_char :: "char \<Rightarrow> char" where
  "ascii_lower_char (Char b0 b1 b2 b3 b4 b5 b6 b7) =
     (let n = (of_char (Char b0 b1 b2 b3 b4 b5 b6 b7) :: nat)
      in if 65 \<le> n \<and> n \<le> 90 then Char b0 b1 b2 b3 b4 True b6 b7
         else Char b0 b1 b2 b3 b4 b5 b6 b7)"

definition ascii_lower :: "string \<Rightarrow> string" where
  "ascii_lower s = map ascii_lower_char s"

text \<open>\<^verbatim>\<open>s.startswith(p)\<close>: the first \<open>length p\<close> characters of \<open>s\<close> are \<open>p\<close>.\<close>

definition startswith :: "string \<Rightarrow> string \<Rightarrow> bool" where
  "startswith s p = (take (length p) s = p)"

text \<open>
  Truth value of a variable that holds \<^verbatim>\<open>None\<close> or a string (\<^verbatim>\<open>if redis_url:\<close>,
  \<^verbatim>\<open>provider and model\<close>): false for \<^verbatim>\<open>None\<close> and for the empty string.
\<close>

fun truthy :: "string option \<Rightarrow> bool" where
  "truthy None = False"
| "truthy (Some s) = (s \<noteq> [])"

subsection \<open>Data\<close>

text \<open>
  Exceptions caught by \<^verbatim>\<open>except Exception\<close>: a missing dictionary key, an index out of
  range, and any other exception a collaborator raises, with its message.
\<close>

datatype exn = KeyError string | IndexError | Error string

text \<open>One value of the registry dictionary: \<^verbatim>\<open>model_info['name']\<close>, \<^verbatim>\<open>model_info['provider']\<close>.\<close>

record model_info =
  mi_name :: string
  mi_provider :: string

text \<open>\<^verbatim>\<open>{"type": ..., "text": ..., "emoji": ...}\<close>\<close>

record text_object =
  tx_type :: string
  tx_text :: string
  tx_emoji :: bool

text \<open>An entry of the dropdown: \<^verbatim>\<open>{"text": {...}, "value": ...}\<close>\<close>

record select_option =
  opt_text :: text_object
  opt_value :: string

text \<open>The published view (lines 90 to 119).\<close>

datatype rich_text_element = Text_element string bool

datatype rich_text_section = Rich_text_section "rich_text_element list"

datatype element =
  Static_select (sel_initial_option: select_option) (sel_options: "select_option list")
    (sel_action_id: string)

datatype block =
    Header text_object
  | Divider
  | Rich_text "rich_text_section list"
  | Actions "element list"

record view =
  view_type :: string
  blocks :: "block list"

text \<open>
  The messages of the procedure, one constructor for each format string, with the values
  the format string interpolates:
  \<^item> \<open>Home_opened user_id\<close>: line 21;
  \<^item> \<open>Get_state_failed e\<close>: line 43;
  \<^item> \<open>Retrieved_state user_id provider model\<close>: line 47;
  \<^item> \<open>No_matching_option model\<close>: line 51;
  \<^item> \<open>No_provider_selection user_id\<close>: line 53;
  \<^item> \<open>Using_genai_default user_id\<close>: line 57;
  \<^item> \<open>Saved_default user_id\<close>: line 63;
  \<^item> \<open>Error_saving_default e\<close>: lines 65 and 66;
  \<^item> \<open>Published_home user_id\<close>: line 121;
  \<^item> \<open>Error_publishing e\<close>: line 123;
  \<^item> \<open>Exception_object e\<close>: the exception itself, handed to the logger on line 124.
\<close>

datatype message =
    Home_opened string
  | Get_state_failed exn
  | Retrieved_state string string string
  | No_matching_option string
  | No_provider_selection string
  | Using_genai_default string
  | Saved_default string
  | Error_saving_default exn
  | Published_home string
  | Error_publishing exn
  | Exception_object exn

text \<open>
  What the procedure does to the outside, in order: the four calls with their
  arguments, \<^verbatim>\<open>print\<close> to standard output, \<^verbatim>\<open>print(..., file=sys.stderr)\<close> and
  \<^verbatim>\<open>logger.error\<close>. Printing and logging are taken to succeed.
\<close>

datatype effect =
    Call_get_available_providers
  | Call_get_redis_user_state string bool string
  | Call_set_redis_user_state string string string string
  | Call_views_publish string view
  | Print message
  | Print_stderr message
  | Logger_error message

text \<open>
  What the outside answers. \<open>str_lower\<close> is Python's \<^verbatim>\<open>str.lower\<close>; \<open>environ\<close> is
  \<^verbatim>\<open>os.environ\<close>. The registry returns its dictionary as the list of its items in
  iteration order, or raises. The store's read returns the pair (provider, model), each
  \<^verbatim>\<open>None\<close> or a string, or raises; the store's write and the publish call return
  (\<open>None\<close>) or raise (\<open>Some e\<close>).
\<close>

record world =
  str_lower :: "string \<Rightarrow> string"
  environ :: "string \<rightharpoonup> string"
  get_available_providers :: "exn + (string \<times> model_info) list"
  get_redis_user_state :: "string \<Rightarrow> bool \<Rightarrow> string \<Rightarrow> exn + (string option \<times> string option)"
  set_redis_user_state :: "string \<Rightarrow> string \<Rightarrow> string \<Rightarrow> string \<Rightarrow> exn option"
  views_publish :: "string \<Rightarrow> view \<Rightarrow> exn option"

subsection \<open>The procedure\<close>

text \<open>
  Lines 24 to 30: one option for each item of the registry. \<open>lower\<close> is \<^verbatim>\<open>str.lower\<close>.
\<close>

definition build_options ::
  "(string \<Rightarrow> string) \<Rightarrow> (string \<times> model_info) list \<Rightarrow> select_option list" where
  "build_options lower registry =
     map (\<lambda>(model_name, model_info).
            \<lparr>opt_text = \<lparr>tx_type = ''plain_text'',
                         tx_text = mi_name model_info @ '' ('' @ mi_provider model_info @ '')'',
                         tx_emoji = True\<rparr>,
             opt_value = model_name @ '' '' @ lower (mi_provider model_info)\<rparr>)
         registry"

text \<open>
  Lines 32 to 44: the store is read only when \<^verbatim>\<open>REDIS_URL\<close> is a non-empty string;
  an exception of the read is printed and leaves provider and model \<^verbatim>\<open>None\<close>.
\<close>

definition read_user_state ::
  "world \<Rightarrow> string \<Rightarrow> string option \<Rightarrow> effect list \<times> string option \<times> string option" where
  "read_user_state w user_id redis_url =
     (case redis_url of
        None \<Rightarrow> ([], None, None)
      | Some url \<Rightarrow>
          if url = [] then ([], None, None)
          else (case get_redis_user_state w user_id True url of
                  Inr (provider, model) \<Rightarrow>
                    ([Call_get_redis_user_state user_id True url], provider, model)
                | Inl e \<Rightarrow>
                    ([Call_get_redis_user_state user_id True url, Print (Get_state_failed e)],
                     None, None)))"

text \<open>
  Lines 59 to 66: the default selection is written to the store when the filtered list
  is non-empty and \<^verbatim>\<open>REDIS_URL\<close> is a non-empty string; an exception of the write is
  printed and logged.
\<close>

definition save_default ::
  "world \<Rightarrow> string \<Rightarrow> string option \<Rightarrow> select_option list \<Rightarrow> effect list" where
  "save_default w user_id redis_url initial_option =
     (case redis_url of
        None \<Rightarrow> []
      | Some url \<Rightarrow>
          if initial_option \<noteq> [] \<and> url \<noteq> [] then
            (case set_redis_user_state w user_id ''genai'' ''genai-agent'' url of
               None \<Rightarrow>
                 [Call_set_redis_user_state user_id ''genai'' ''genai-agent'' url,
                  Print (Saved_default user_id)]
             | Some e \<Rightarrow>
                 [Call_set_redis_user_state user_id ''genai'' ''genai-agent'' url,
                  Print_stderr (Error_saving_default e),
                  Logger_error (Error_saving_default e)])
          else [])"

text \<open>
  Lines 52 to 66, the \<^verbatim>\<open>else\<close> branch: no saved pair. The variable
  \<^verbatim>\<open>initial_option\<close> stays \<^verbatim>\<open>None\<close> or becomes the list of the options whose value
  starts with \<^verbatim>\<open>genai-agent\<close>.
\<close>

definition default_selection ::
  "world \<Rightarrow> string \<Rightarrow> string option \<Rightarrow> select_option list
     \<Rightarrow> effect list \<times> select_option list option" where
  "default_selection w user_id redis_url opts =
     (let genai_api_url = environ w ''GENAI_API_URL'' in
      if truthy genai_api_url \<and> list_ex (\<lambda>opt. startswith (opt_value opt) ''genai-agent'') opts
      then
        (let initial_option = filter (\<lambda>x. startswith (opt_value x) ''genai-agent'') opts
         in ([Print (No_provider_selection user_id), Print (Using_genai_default user_id)]
               @ save_default w user_id redis_url initial_option,
             Some initial_option))
      else ([Print (No_provider_selection user_id)], None))"

text \<open>Lines 46 to 51, the branch of a saved pair: the options whose value starts with the model.\<close>

definition saved_selection ::
  "string \<Rightarrow> select_option list \<Rightarrow> string \<Rightarrow> string
     \<Rightarrow> effect list \<times> select_option list option" where
  "saved_selection user_id opts provider model =
     (let initial_option = filter (\<lambda>x. startswith (opt_value x) model) opts
      in (Print (Retrieved_state user_id provider model)
            # (if initial_option = [] then [Print (No_matching_option model)] else []),
          Some initial_option))"

text \<open>Lines 46 to 66: \<^verbatim>\<open>if provider and model: ... else: ...\<close>\<close>

definition select_initial ::
  "world \<Rightarrow> string \<Rightarrow> string option \<Rightarrow> select_option list \<Rightarrow> string option \<Rightarrow> string option
     \<Rightarrow> effect list \<times> select_option list option" where
  "select_initial w user_id redis_url opts provider model =
     (case (provider, model) of
        (Some p, Some m) \<Rightarrow>
          if p \<noteq> [] \<and> m \<noteq> [] then saved_selection user_id opts p m
          else default_selection w user_id redis_url opts
      | _ \<Rightarrow> default_selection w user_id redis_url opts)"

text \<open>
  Truth value of the variable \<^verbatim>\<open>initial_option\<close>, which holds \<^verbatim>\<open>None\<close> or a list:
  false for \<^verbatim>\<open>None\<close> and for the empty list.
\<close>

fun chosen :: "select_option list option \<Rightarrow> bool" where
  "chosen None = False"
| "chosen (Some xs) = (xs \<noteq> [])"

definition placeholder :: "string \<Rightarrow> select_option" where
  "placeholder label =
     \<lparr>opt_text = \<lparr>tx_type = ''plain_text'', tx_text = label, tx_emoji = True\<rparr>,
      opt_value = ''null''\<rparr>"

text \<open>Lines 69 to 85: \<^verbatim>\<open>options.append\<close> of the placeholder when nothing was chosen.\<close>

definition add_placeholder ::
  "world \<Rightarrow> select_option list \<Rightarrow> select_option list option \<Rightarrow> select_option list" where
  "add_placeholder w opts initial_option =
     (if \<not> chosen initial_option then
        (let genai_api_url = environ w ''GENAI_API_URL'' in
         if truthy genai_api_url
            \<and> list_ex (\<lambda>opt. startswith (opt_value opt) ''genai-agent'') opts
         then opts @ [placeholder ''Select a provider (GenAI used as fallback)'']
         else opts @ [placeholder ''Select a provider''])
      else opts)"

text \<open>
  Line 112: \<^verbatim>\<open>initial_option[0] if initial_option else options[-1]\<close>. On an empty
  \<^verbatim>\<open>options\<close> the index \<^verbatim>\<open>-1\<close> raises.
\<close>

definition pick_initial ::
  "select_option list option \<Rightarrow> select_option list \<Rightarrow> exn + select_option" where
  "pick_initial initial_option opts =
     (case initial_option of
        Some (x # _) \<Rightarrow> Inr x
      | _ \<Rightarrow> (case opts of [] \<Rightarrow> Inl IndexError | _ # _ \<Rightarrow> Inr (last opts)))"

text \<open>Lines 90 to 119: the view.\<close>

definition home_view :: "select_option \<Rightarrow> select_option list \<Rightarrow> view" where
  "home_view initial opts =
     \<lparr>view_type = ''home'',
      blocks =
        [Header \<lparr>tx_type = ''plain_text'', tx_text = ''Welcome to Sailor Home Page!'',
                 tx_emoji = True\<rparr>,
         Divider,
         Rich_text [Rich_text_section [Text_element ''Pick an option'' True]],
         Actions [Static_select initial opts ''pick_a_provider'']]\<rparr>"

text \<open>
  Lines 87 to 124: the arguments are built inside the \<^verbatim>\<open>try\<close>, so an exception of
  line 112 is handled like one of the call.
\<close>

definition publish_home ::
  "world \<Rightarrow> string \<Rightarrow> select_option list \<Rightarrow> select_option list option \<Rightarrow> effect list" where
  "publish_home w user_id opts initial_option =
     (case pick_initial initial_option opts of
        Inl e \<Rightarrow> [Print_stderr (Error_publishing e), Logger_error (Exception_object e)]
      | Inr initial \<Rightarrow>
          (case views_publish w user_id (home_view initial opts) of
             None \<Rightarrow>
               [Call_views_publish user_id (home_view initial opts),
                Print (Published_home user_id)]
           | Some e \<Rightarrow>
               [Call_views_publish user_id (home_view initial opts),
                Print_stderr (Error_publishing e),
                Logger_error (Exception_object e)]))"

text \<open>Lines 32 to 124, once \<^verbatim>\<open>options\<close> is built.\<close>

definition render_home :: "world \<Rightarrow> string \<Rightarrow> select_option list \<Rightarrow> effect list" where
  "render_home w user_id opts =
     (let redis_url = environ w ''REDIS_URL'';
          (read_effects, provider, model) = read_user_state w user_id redis_url;
          (select_effects, initial_option) =
             select_initial w user_id redis_url opts provider model;
          opts' = add_placeholder w opts initial_option
      in read_effects @ select_effects @ publish_home w user_id opts' initial_option)"

text \<open>
  The procedure. The event is a dictionary; \<^verbatim>\<open>event["tab"]\<close> and \<^verbatim>\<open>event["user"]\<close>
  raise \<^verbatim>\<open>KeyError\<close> on a missing key, and an exception of the registry is not caught.
  The result is the list of effects and either the exception that leaves the procedure
  or its return value \<^verbatim>\<open>None\<close>.
\<close>

definition app_home_opened_callback ::
  "world \<Rightarrow> (string \<rightharpoonup> string) \<Rightarrow> effect list \<times> (exn + unit)" where
  "app_home_opened_callback w event =
     (case event ''tab'' of
        None \<Rightarrow> ([], Inl (KeyError ''tab''))
      | Some tab \<Rightarrow>
          if tab \<noteq> ''home'' then ([], Inr ())
          else (case event ''user'' of
                  None \<Rightarrow> ([], Inl (KeyError ''user''))
                | Some user_id \<Rightarrow>
                    (case get_available_providers w of
                       Inl e \<Rightarrow>
                         ([Print (Home_opened user_id), Call_get_available_providers], Inl e)
                     | Inr registry \<Rightarrow>
                         (Print (Home_opened user_id) # Call_get_available_providers
                            # render_home w user_id (build_options (str_lower w) registry),
                          Inr ()))))"

subsection \<open>Reading the list of effects\<close>

fun publish_of :: "effect \<Rightarrow> (string \<times> view) list" where
  "publish_of (Call_views_publish user_id v) = [(user_id, v)]"
| "publish_of _ = []"

definition published :: "effect list \<Rightarrow> (string \<times> view) list" where
  "published es = concat (map publish_of es)"

fun is_store_read :: "effect \<Rightarrow> bool" where
  "is_store_read (Call_get_redis_user_state _ _ _) = True"
| "is_store_read _ = False"

fun is_store_write :: "effect \<Rightarrow> bool" where
  "is_store_write (Call_set_redis_user_state _ _ _ _) = True"
| "is_store_write _ = False"

fun is_logger_error :: "effect \<Rightarrow> bool" where
  "is_logger_error (Logger_error _) = True"
| "is_logger_error _ = False"

fun is_registry_read :: "effect \<Rightarrow> bool" where
  "is_registry_read Call_get_available_providers = True"
| "is_registry_read _ = False"

text \<open>The dropdowns of a view: the \<^verbatim>\<open>static_select\<close> elements of its \<^verbatim>\<open>actions\<close> blocks.\<close>

fun elements_of :: "block \<Rightarrow> element list" where
  "elements_of (Actions es) = es"
| "elements_of _ = []"

definition dropdowns :: "effect list \<Rightarrow> element list" where
  "dropdowns es = concat (map (\<lambda>(user_id, v). concat (map elements_of (blocks v))) (published es))"

subsection \<open>Example inputs\<close>

text \<open>A registry of two models, an event of the home tab, and a world with every answer given.\<close>

definition example_registry :: "(string \<times> model_info) list" where
  "example_registry =
     [(''gpt-4o'', \<lparr>mi_name = ''GPT-4o'', mi_provider = ''OpenAI''\<rparr>),
      (''genai-agent'', \<lparr>mi_name = ''GenAI Agent'', mi_provider = ''GenAI''\<rparr>)]"

text \<open>A registry where the name of the first model extends the name of the second.\<close>

definition prefix_registry :: "(string \<times> model_info) list" where
  "prefix_registry =
     [(''gpt-4o-mini'', \<lparr>mi_name = ''GPT-4o mini'', mi_provider = ''OpenAI''\<rparr>),
      (''gpt-4o'', \<lparr>mi_name = ''GPT-4o'', mi_provider = ''OpenAI''\<rparr>)]"

definition example_event :: "string \<rightharpoonup> string" where
  "example_event =
     [''type'' \<mapsto> ''app_home_opened'', ''tab'' \<mapsto> ''home'', ''user'' \<mapsto> ''U1'']"

definition example_world ::
  "string option \<Rightarrow> string option \<Rightarrow> exn + (string option \<times> string option)
     \<Rightarrow> exn option \<Rightarrow> exn option \<Rightarrow> world" where
  "example_world redis_url genai_api_url read_answer write_answer publish_answer =
     \<lparr>str_lower = ascii_lower,
      environ = (\<lambda>k. if k = ''REDIS_URL'' then redis_url
                      else if k = ''GENAI_API_URL'' then genai_api_url else None),
      get_available_providers = Inr example_registry,
      get_redis_user_state = (\<lambda>user_id flag url. read_answer),
      set_redis_user_state = (\<lambda>user_id provider model url. write_answer),
      views_publish = (\<lambda>user_id v. publish_answer)\<rparr>"

definition gpt_option :: select_option where
  "gpt_option =
     \<lparr>opt_text = \<lparr>tx_type = ''plain_text'', tx_text = ''GPT-4o (OpenAI)'', tx_emoji = True\<rparr>,
      opt_value = ''gpt-4o openai''\<rparr>"

definition gpt_mini_option :: select_option where
  "gpt_mini_option =
     \<lparr>opt_text = \<lparr>tx_type = ''plain_text'', tx_text = ''GPT-4o mini (OpenAI)'',
                  tx_emoji = True\<rparr>,
      opt_value = ''gpt-4o-mini openai''\<rparr>"

definition genai_option :: select_option where
  "genai_option =
     \<lparr>opt_text = \<lparr>tx_type = ''plain_text'', tx_text = ''GenAI Agent (GenAI)'', tx_emoji = True\<rparr>,
      opt_value = ''genai-agent genai''\<rparr>"

section \<open>Properties\<close>

subsection \<open>Helper lemmas\<close>

lemma build_example: "build_options ascii_lower example_registry = [gpt_option, genai_option]"
  by (simp add: build_options_def example_registry_def gpt_option_def genai_option_def ascii_lower_def)

lemma published_Nil: "published [] = []"
  by (simp add: published_def)

lemma published_Cons: "published (e # es) = publish_of e @ published es"
  by (simp add: published_def)

lemma published_append: "published (xs @ ys) = published xs @ published ys"
  by (simp add: published_def)

lemma dropdowns_Nil: "dropdowns [] = []"
  by (simp add: dropdowns_def published_def)

lemma dropdowns_append: "dropdowns (xs @ ys) = dropdowns xs @ dropdowns ys"
  by (simp add: dropdowns_def published_append)

lemma dropdowns_Cons:
  "dropdowns (e # es) =
     (case e of Call_views_publish user_id v \<Rightarrow> concat (map elements_of (blocks v)) | _ \<Rightarrow> [])
       @ dropdowns es"
  by (cases e) (simp_all add: dropdowns_def published_Cons)

lemma dropdowns_home_view:
  "concat (map elements_of (blocks (home_view initial opts))) =
     [Static_select initial opts ''pick_a_provider'']"
  by (simp add: home_view_def)

lemma callback_home:
  assumes "event ''tab'' = Some ''home''" and "event ''user'' = Some user_id"
    and "get_available_providers w = Inr registry"
  shows "app_home_opened_callback w event =
           (Print (Home_opened user_id) # Call_get_available_providers
              # render_home w user_id (build_options (str_lower w) registry), Inr ())"
  using assms by (simp add: app_home_opened_callback_def)

text \<open>The initial option line 112 hands to the dropdown.\<close>

lemma pick_initial_chosen:
  "pick_initial (Some (x # rest)) opts = Inr x"
  by (simp add: pick_initial_def)

lemma add_placeholder_chosen:
  "add_placeholder w opts (Some (x # rest)) = opts"
  by (simp add: add_placeholder_def)

lemma add_placeholder_not_chosen:
  assumes "\<not> chosen initial_option"
  shows "add_placeholder w opts initial_option =
           opts @ [placeholder
                     (if truthy (environ w ''GENAI_API_URL'')
                         \<and> list_ex (\<lambda>opt. startswith (opt_value opt) ''genai-agent'') opts
                      then ''Select a provider (GenAI used as fallback)''
                      else ''Select a provider'')]"
  using assms by (simp add: add_placeholder_def)

lemma pick_initial_not_chosen:
  assumes "\<not> chosen initial_option"
  shows "pick_initial initial_option (opts @ [x]) = Inr x"
proof -
  have "initial_option = None \<or> initial_option = Some []"
    using assms by (cases initial_option) auto
  then show ?thesis
    by (cases opts) (auto simp: pick_initial_def)
qed

lemma publish_home_effects:
  assumes "pick_initial initial_option opts = Inr initial"
  shows "publish_home w user_id opts initial_option =
           Call_views_publish user_id (home_view initial opts)
             # (case views_publish w user_id (home_view initial opts) of
                  None \<Rightarrow> [Print (Published_home user_id)]
                | Some e \<Rightarrow> [Print_stderr (Error_publishing e),
                             Logger_error (Exception_object e)])"
  using assms by (simp add: publish_home_def split: option.splits)


lemma render_home_eq:
  assumes "read_user_state w user_id (environ w ''REDIS_URL'') = (t, p, m)"
    and "select_initial w user_id (environ w ''REDIS_URL'') opts p m = (s, io)"
  shows "render_home w user_id opts =
           t @ s @ publish_home w user_id (add_placeholder w opts io) io"
  using assms by (simp add: render_home_def)

text \<open>Line 112 never raises: after lines 69 to 85 the list has the option it picks.\<close>

lemma pick_initial_add_placeholder:
  "pick_initial io (add_placeholder w opts io) =
     Inr (case io of
            Some (x # _) \<Rightarrow> x
          | _ \<Rightarrow> placeholder
                 (if truthy (environ w ''GENAI_API_URL'')
                     \<and> list_ex (\<lambda>opt. startswith (opt_value opt) ''genai-agent'') opts
                  then ''Select a provider (GenAI used as fallback)''
                  else ''Select a provider''))"
proof (cases "chosen io")
  case True
  then obtain x rest where "io = Some (x # rest)"
    by (cases io) (auto simp: neq_Nil_conv)
  then show ?thesis
    by (simp add: pick_initial_chosen)
next
  case False
  then have "io = None \<or> io = Some []"
    by (cases io) auto
  with False show ?thesis
    by (auto simp: add_placeholder_not_chosen pick_initial_not_chosen)
qed

lemma publish_home_placeholder:
  "\<exists>initial rest. publish_home w user_id (add_placeholder w opts io) io =
      Call_views_publish user_id (home_view initial (add_placeholder w opts io)) # rest
    \<and> pick_initial io (add_placeholder w opts io) = Inr initial
    \<and> published rest = [] \<and> filter is_store_read rest = [] \<and> filter is_store_write rest = []
    \<and> filter is_registry_read rest = []"
proof -
  obtain initial where a: "pick_initial io (add_placeholder w opts io) = Inr initial"
    using pick_initial_add_placeholder by blast
  show ?thesis
    unfolding publish_home_effects [OF a]
    using a by (auto simp: published_def split: option.splits)
qed

lemma read_user_state_published: "published (fst (read_user_state w user_id r)) = []"
  by (auto simp: read_user_state_def published_def split: option.splits sum.splits)

lemma read_user_state_writes: "filter is_store_write (fst (read_user_state w user_id r)) = []"
  by (auto simp: read_user_state_def split: option.splits sum.splits)

lemma save_default_published: "published (save_default w user_id r xs) = []"
  by (auto simp: save_default_def published_def split: option.splits)

lemma select_initial_published: "published (fst (select_initial w user_id r opts p m)) = []"
  by (auto simp: select_initial_def saved_selection_def default_selection_def Let_def
      published_Cons published_Nil published_append save_default_published
      split: option.splits)

lemma save_default_reads: "filter is_store_read (save_default w user_id r xs) = []"
  by (auto simp: save_default_def split: option.splits)

lemma select_initial_reads:
  "filter is_store_read (fst (select_initial w user_id r opts p m)) = []"
  by (auto simp: select_initial_def saved_selection_def default_selection_def Let_def
      save_default_reads split: option.splits)

lemma dropdowns_read_user_state: "dropdowns (fst (read_user_state w user_id r)) = []"
  by (simp add: dropdowns_def read_user_state_published)

lemma dropdowns_select_initial: "dropdowns (fst (select_initial w user_id r opts p m)) = []"
  by (simp add: dropdowns_def select_initial_published)

lemma dropdowns_publish_home:
  assumes "pick_initial io opts = Inr initial"
  shows "dropdowns (publish_home w user_id opts io) =
           [Static_select initial opts ''pick_a_provider'']"
  unfolding publish_home_effects [OF assms]
  by (simp add: dropdowns_Cons dropdowns_home_view dropdowns_Nil split: option.splits)

lemma published_publish_home:
  assumes "pick_initial io opts = Inr initial"
  shows "published (publish_home w user_id opts io) = [(user_id, home_view initial opts)]"
  unfolding publish_home_effects [OF assms]
  by (simp add: published_Cons published_Nil split: option.splits)

text \<open>The dropdown of an invocation that passes line 30.\<close>

lemma dropdowns_callback:
  assumes "event ''tab'' = Some ''home''" and "event ''user'' = Some user_id"
    and "get_available_providers w = Inr registry"
    and "read_user_state w user_id (environ w ''REDIS_URL'') = (t, p, m)"
    and "select_initial w user_id (environ w ''REDIS_URL'') (build_options (str_lower w) registry) p m = (s, io)"
    and "pick_initial io (add_placeholder w (build_options (str_lower w) registry) io) = Inr initial"
  shows "dropdowns (fst (app_home_opened_callback w event)) =
           [Static_select initial (add_placeholder w (build_options (str_lower w) registry) io)
              ''pick_a_provider'']"
    and "published (fst (app_home_opened_callback w event)) =
           [(user_id, home_view initial (add_placeholder w (build_options (str_lower w) registry) io))]"
proof -
  have t: "dropdowns t = []" "published t = []"
    using dropdowns_read_user_state [of w user_id "environ w ''REDIS_URL''"]
      read_user_state_published [of w user_id "environ w ''REDIS_URL''"] assms(4) by simp_all
  have s: "dropdowns s = []" "published s = []"
    using dropdowns_select_initial [of w user_id "environ w ''REDIS_URL''" "build_options (str_lower w) registry" p m]
      select_initial_published [of w user_id "environ w ''REDIS_URL''" "build_options (str_lower w) registry" p m]
      assms(5) by simp_all
  show "dropdowns (fst (app_home_opened_callback w event)) =
           [Static_select initial (add_placeholder w (build_options (str_lower w) registry) io)
              ''pick_a_provider'']"
    by (simp add: callback_home [OF assms(1-3)] render_home_eq [OF assms(4,5)]
        dropdowns_Cons dropdowns_append t s dropdowns_publish_home [OF assms(6)])
  show "published (fst (app_home_opened_callback w event)) =
           [(user_id, home_view initial (add_placeholder w (build_options (str_lower w) registry) io))]"
    by (simp add: callback_home [OF assms(1-3)] render_home_eq [OF assms(4,5)]
        published_Cons published_append t s published_publish_home [OF assms(6)])
qed

lemma example_event_simps:
  "example_event ''tab'' = Some ''home''" "example_event ''user'' = Some ''U1''"
  by (simp_all add: example_event_def)

lemma example_world_simps:
  "str_lower (example_world r g a b c) = ascii_lower"
  "environ (example_world r g a b c) ''REDIS_URL'' = r"
  "environ (example_world r g a b c) ''GENAI_API_URL'' = g"
  "get_available_providers (example_world r g a b c) = Inr example_registry"
  "get_redis_user_state (example_world r g a b c) user_id flag url = a"
  "set_redis_user_state (example_world r g a b c) user_id provider model url = b"
  "views_publish (example_world r g a b c) user_id v = c"
  by (simp_all add: example_world_def)

lemma startswith_example:
  "startswith (opt_value gpt_option) ''gpt-4o''"
  "\<not> startswith (opt_value genai_option) ''gpt-4o''"
  "\<not> startswith (opt_value gpt_option) ''genai-agent''"
  "startswith (opt_value genai_option) ''genai-agent''"
  "\<not> startswith (opt_value gpt_option) ''claude-3''"
  "\<not> startswith (opt_value genai_option) ''claude-3''"
  by (simp_all add: startswith_def gpt_option_def genai_option_def)

lemma build_options_append:
  "build_options lower (xs @ ys) = build_options lower xs @ build_options lower ys"
  by (simp add: build_options_def)

lemma build_options_Cons:
  "build_options lower ((model_name, model_info) # ys) =
     \<lparr>opt_text = \<lparr>tx_type = ''plain_text'',
                  tx_text = mi_name model_info @ '' ('' @ mi_provider model_info @ '')'',
                  tx_emoji = True\<rparr>,
      opt_value = model_name @ '' '' @ lower (mi_provider model_info)\<rparr>
     # build_options lower ys"
  by (simp add: build_options_def)

lemma build_prefix_example:
  "build_options ascii_lower prefix_registry = [gpt_mini_option, gpt_option]"
  by (simp add: build_options_def prefix_registry_def gpt_option_def gpt_mini_option_def
      ascii_lower_def)

subsection \<open>Another tab\<close>

text \<open>
  Claim C10. For every event whose \<^verbatim>\<open>tab\<close> field is not \<^verbatim>\<open>home\<close>, the procedure returns
  at once (line 18): it returns \<^verbatim>\<open>None\<close> and the list of its effects is empty, so the
  registry is not read, the store is neither read nor written, and no view is published.
\<close>

theorem other_tab_no_effect:
  assumes "event ''tab'' = Some tab" and "tab \<noteq> ''home''"
  shows "app_home_opened_callback w event = ([], Inr ())"
  using assms by (simp add: app_home_opened_callback_def)

text \<open>The theorem at an event of the \<^verbatim>\<open>messages\<close> tab.\<close>

theorem other_tab_no_effect_witness:
  "app_home_opened_callback
     (example_world (Some ''redis://cache'') (Some ''https://agent'')
        (Inr (Some ''openai'', Some ''gpt-4o'')) None None)
     [''tab'' \<mapsto> ''messages'', ''user'' \<mapsto> ''U1''] = ([], Inr ())"
  using other_tab_no_effect [of "[''tab'' \<mapsto> ''messages'', ''user'' \<mapsto> ''U1'']" "''messages''"]
  by simp

subsection \<open>A saved model\<close>

text \<open>
  Claim C1, as amended. When the store is read (\<^verbatim>\<open>REDIS_URL\<close> is a non-empty string)
  and returns a non-empty provider and a non-empty model, the registry has an item whose
  key is the saved model, and no option built from an earlier item has a value that
  starts with the saved model, then the initial option of the published dropdown is the
  option corresponding to the saved model, the one built from that item:
  \<^verbatim>\<open>initial_option\<close> is the list of the options whose value starts with the saved model,
  its first element is that option, and that option is the \<^verbatim>\<open>initial_option\<close> of the
  one published \<^verbatim>\<open>static_select\<close>, whose options are the options built from the
  registry.
\<close>

theorem saved_model_initial_option:
  assumes "event ''tab'' = Some ''home''" and "event ''user'' = Some user_id"
    and "get_available_providers w = Inr (before @ (model, model_info) # after)"
    and "environ w ''REDIS_URL'' = Some url" and "url \<noteq> []"
    and "get_redis_user_state w user_id True url = Inr (Some provider, Some model)"
    and "provider \<noteq> []" and "model \<noteq> []"
    and "filter (\<lambda>x. startswith (opt_value x) model) (build_options (str_lower w) before) = []"
    and "saved_option =
           \<lparr>opt_text = \<lparr>tx_type = ''plain_text'',
                        tx_text = mi_name model_info @ '' ('' @ mi_provider model_info @ '')'',
                        tx_emoji = True\<rparr>,
            opt_value = model @ '' '' @ str_lower w (mi_provider model_info)\<rparr>"
  shows "snd (select_initial w user_id (Some url)
                (build_options (str_lower w) (before @ (model, model_info) # after))
                (Some provider) (Some model)) =
           Some (filter (\<lambda>x. startswith (opt_value x) model)
                   (build_options (str_lower w) (before @ (model, model_info) # after)))
         \<and> (\<exists>rest. filter (\<lambda>x. startswith (opt_value x) model)
                      (build_options (str_lower w) (before @ (model, model_info) # after))
                    = saved_option # rest)
         \<and> dropdowns (fst (app_home_opened_callback w event)) =
             [Static_select saved_option
                (build_options (str_lower w) (before @ (model, model_info) # after))
                ''pick_a_provider'']
         \<and> published (fst (app_home_opened_callback w event)) =
             [(user_id, home_view saved_option
                 (build_options (str_lower w) (before @ (model, model_info) # after)))]"
proof -
  let ?opts = "build_options (str_lower w) (before @ (model, model_info) # after)"
  let ?rest = "filter (\<lambda>x. startswith (opt_value x) model) (build_options (str_lower w) after)"
  have f: "filter (\<lambda>x. startswith (opt_value x) model) ?opts = saved_option # ?rest"
    using assms(9,10) by (simp add: build_options_append build_options_Cons startswith_def)
  have r: "read_user_state w user_id (environ w ''REDIS_URL'') =
             ([Call_get_redis_user_state user_id True url], Some provider, Some model)"
    using assms(4-6) by (simp add: read_user_state_def)
  have s: "select_initial w user_id (environ w ''REDIS_URL'') ?opts
             (Some provider) (Some model) =
           ([Print (Retrieved_state user_id provider model)], Some (saved_option # ?rest))"
    using assms(7,8) f by (simp add: select_initial_def saved_selection_def)
  have p: "pick_initial (Some (saved_option # ?rest))
             (add_placeholder w ?opts (Some (saved_option # ?rest))) = Inr saved_option"
    by (simp add: pick_initial_chosen)
  show ?thesis
    using dropdowns_callback [OF assms(1-3) r s p] s f assms(4)
    by (simp add: add_placeholder_chosen)
qed


text \<open>The theorem at a store that holds the model \<^verbatim>\<open>genai-agent\<close>.\<close>

theorem saved_model_initial_option_witness:
  "dropdowns (fst (app_home_opened_callback
      (example_world (Some ''redis://cache'') None (Inr (Some ''genai'', Some ''genai-agent''))
         None None) example_event)) =
     [Static_select genai_option [gpt_option, genai_option] ''pick_a_provider'']"
  using saved_model_initial_option [of example_event "''U1''"
      "example_world (Some ''redis://cache'') None (Inr (Some ''genai'', Some ''genai-agent''))
         None None"
      "[(''gpt-4o'', \<lparr>mi_name = ''GPT-4o'', mi_provider = ''OpenAI''\<rparr>)]"
      "''genai-agent''" "\<lparr>mi_name = ''GenAI Agent'', mi_provider = ''GenAI''\<rparr>" "[]"
      "''redis://cache''" "''genai''" genai_option]
    build_example
  by (simp add: example_event_simps example_world_simps example_registry_def
      build_options_Cons genai_option_def ascii_lower_def startswith_def)

text \<open>
  Without a matching option the claim fails: the store returns the pair
  (\<^verbatim>\<open>openai\<close>, \<^verbatim>\<open>claude-3\<close>), no option's value starts with \<^verbatim>\<open>claude-3\<close>, and the
  initial option of the published dropdown is the placeholder, whose value is \<^verbatim>\<open>null\<close>.
\<close>

theorem stale_model_counterexample:
  "get_redis_user_state
      (example_world (Some ''redis://cache'') None (Inr (Some ''openai'', Some ''claude-3''))
         None None) ''U1'' True ''redis://cache'' = Inr (Some ''openai'', Some ''claude-3'')
   \<and> dropdowns (fst (app_home_opened_callback
      (example_world (Some ''redis://cache'') None (Inr (Some ''openai'', Some ''claude-3''))
         None None) example_event)) =
     [Static_select (placeholder ''Select a provider'')
        [gpt_option, genai_option, placeholder ''Select a provider''] ''pick_a_provider'']
   \<and> \<not> startswith (opt_value (placeholder ''Select a provider'')) ''claude-3''"
proof -
  let ?w = "example_world (Some ''redis://cache'') None
              (Inr (Some ''openai'', Some ''claude-3'')) None None"
  have r: "read_user_state ?w ''U1'' (environ ?w ''REDIS_URL'') =
             ([Call_get_redis_user_state ''U1'' True ''redis://cache''],
              Some ''openai'', Some ''claude-3'')"
    by (simp add: read_user_state_def example_world_simps)
  have s: "select_initial ?w ''U1'' (environ ?w ''REDIS_URL'') (build_options (str_lower ?w) example_registry)
             (Some ''openai'') (Some ''claude-3'') =
           ([Print (Retrieved_state ''U1'' ''openai'' ''claude-3''),
             Print (No_matching_option ''claude-3'')], Some [])"
    by (simp add: select_initial_def saved_selection_def example_world_simps build_example
        startswith_example)
  have a: "add_placeholder ?w (build_options (str_lower ?w) example_registry) (Some []) =
             [gpt_option, genai_option, placeholder ''Select a provider'']"
    by (simp add: add_placeholder_def example_world_simps build_example)
  have p: "pick_initial (Some []) (add_placeholder ?w (build_options (str_lower ?w) example_registry) (Some []))
             = Inr (placeholder ''Select a provider'')"
    unfolding a by (simp add: pick_initial_def)
  have "dropdowns (fst (app_home_opened_callback ?w example_event)) =
     [Static_select (placeholder ''Select a provider'')
        [gpt_option, genai_option, placeholder ''Select a provider''] ''pick_a_provider'']"
    using dropdowns_callback(1) [OF example_event_simps example_world_simps(4) r s p]
    by (simp add: a)
  then show ?thesis
    by (simp add: example_world_simps startswith_def placeholder_def)
qed

text \<open>
  The test of line 49 is a prefix test. With the registry of \<^verbatim>\<open>gpt-4o-mini\<close> and
  \<^verbatim>\<open>gpt-4o\<close>, in this order, and the saved model \<^verbatim>\<open>gpt-4o\<close>, the first option whose
  value starts with the saved model is the option of \<^verbatim>\<open>gpt-4o-mini\<close>, and it is
  published as initial option. The theorem above says nothing of such registries.
\<close>

theorem earlier_prefix_match_example:
  "get_redis_user_state
      (example_world (Some ''redis://cache'') None (Inr (Some ''openai'', Some ''gpt-4o''))
         None None\<lparr>get_available_providers := Inr prefix_registry\<rparr>)
      ''U1'' True ''redis://cache'' = Inr (Some ''openai'', Some ''gpt-4o'')
   \<and> dropdowns (fst (app_home_opened_callback
        (example_world (Some ''redis://cache'') None (Inr (Some ''openai'', Some ''gpt-4o''))
           None None\<lparr>get_available_providers := Inr prefix_registry\<rparr>) example_event)) =
      [Static_select gpt_mini_option [gpt_mini_option, gpt_option] ''pick_a_provider'']
   \<and> opt_value gpt_mini_option = ''gpt-4o-mini openai''"
proof -
  let ?w = "example_world (Some ''redis://cache'') None (Inr (Some ''openai'', Some ''gpt-4o''))
              None None\<lparr>get_available_providers := Inr prefix_registry\<rparr>"
  have "app_home_opened_callback ?w example_event =
     ([Print (Home_opened ''U1''), Call_get_available_providers,
       Call_get_redis_user_state ''U1'' True ''redis://cache'',
       Print (Retrieved_state ''U1'' ''openai'' ''gpt-4o''),
       Call_views_publish ''U1'' (home_view gpt_mini_option [gpt_mini_option, gpt_option]),
       Print (Published_home ''U1'')], Inr ())"
    by (simp add: app_home_opened_callback_def example_event_simps example_world_def
        render_home_def read_user_state_def select_initial_def saved_selection_def
        add_placeholder_def publish_home_def pick_initial_def build_prefix_example
        startswith_def gpt_option_def gpt_mini_option_def)
  then show ?thesis
    by (simp add: dropdowns_Cons dropdowns_Nil dropdowns_home_view example_world_def
        gpt_mini_option_def)
qed

subsection \<open>Effects of the parts\<close>

lemma publish_home_reads: "filter is_store_read (publish_home w user_id opts io) = []"
  by (auto simp: publish_home_def split: sum.splits option.splits)

lemma publish_home_writes: "filter is_store_write (publish_home w user_id opts io) = []"
  by (auto simp: publish_home_def split: sum.splits option.splits)

lemma publish_home_registry: "filter is_registry_read (publish_home w user_id opts io) = []"
  by (auto simp: publish_home_def split: sum.splits option.splits)

lemma read_user_state_registry:
  "filter is_registry_read (fst (read_user_state w user_id r)) = []"
  by (auto simp: read_user_state_def split: option.splits sum.splits)

lemma save_default_registry: "filter is_registry_read (save_default w user_id r xs) = []"
  by (auto simp: save_default_def split: option.splits)

lemma select_initial_registry:
  "filter is_registry_read (fst (select_initial w user_id r opts p m)) = []"
  by (auto simp: select_initial_def saved_selection_def default_selection_def Let_def
      save_default_registry split: option.splits)

lemma save_default_writes:
  "filter is_store_write (save_default w user_id r xs) =
     (case r of
        None \<Rightarrow> []
      | Some url \<Rightarrow>
          if xs \<noteq> [] \<and> url \<noteq> []
          then [Call_set_redis_user_state user_id ''genai'' ''genai-agent'' url] else [])"
  by (auto simp: save_default_def split: option.splits)

lemma read_user_state_no_url:
  assumes "\<not> truthy r"
  shows "read_user_state w user_id r = ([], None, None)"
  using assms by (cases r) (auto simp: read_user_state_def)

lemma select_initial_default:
  assumes "\<not> (truthy p \<and> truthy m)"
  shows "select_initial w user_id r opts p m = default_selection w user_id r opts"
  using assms by (cases p; cases m) (auto simp: select_initial_def)

lemma default_selection_no_url:
  assumes "\<not> truthy r"
  shows "filter is_store_write (fst (default_selection w user_id r opts)) = []"
  using assms by (cases r) (auto simp: default_selection_def Let_def save_default_writes)

lemma render_home_no_url:
  assumes "\<not> truthy (environ w ''REDIS_URL'')"
  shows "filter is_store_read (render_home w user_id opts) = []"
    and "filter is_store_write (render_home w user_id opts) = []"
proof -
  obtain s io where s: "default_selection w user_id (environ w ''REDIS_URL'') opts = (s, io)"
    by (cases "default_selection w user_id (environ w ''REDIS_URL'') opts")
  have e: "render_home w user_id opts = s @ publish_home w user_id (add_placeholder w opts io) io"
    using s by (simp add: render_home_def read_user_state_no_url [OF assms] select_initial_default)
  have "filter is_store_read s = []"
    using select_initial_reads [of w user_id "environ w ''REDIS_URL''" opts None None] s
    by (simp add: select_initial_default)
  then show "filter is_store_read (render_home w user_id opts) = []"
    by (simp add: e publish_home_reads)
  have "filter is_store_write s = []"
    using default_selection_no_url [OF assms, of w user_id opts] s by simp
  then show "filter is_store_write (render_home w user_id opts) = []"
    by (simp add: e publish_home_writes)
qed

subsection \<open>No store configured\<close>

text \<open>
  Claim C9. When \<^verbatim>\<open>REDIS_URL\<close> is unset or empty, no invocation touches the store:
  the list of effects has no call of \<^verbatim>\<open>get_redis_user_state\<close> (nothing is restored)
  and no call of \<^verbatim>\<open>set_redis_user_state\<close> (the default selection, even when it is
  used, is not saved).
\<close>

theorem no_redis_url_store_untouched:
  assumes "environ w ''REDIS_URL'' = None \<or> environ w ''REDIS_URL'' = Some []"
  shows "filter is_store_read (fst (app_home_opened_callback w event)) = []
         \<and> filter is_store_write (fst (app_home_opened_callback w event)) = []"
proof -
  have "\<not> truthy (environ w ''REDIS_URL'')"
    using assms by auto
  then show ?thesis
    by (simp add: app_home_opened_callback_def render_home_no_url
        split: option.splits sum.splits)
qed

text \<open>The theorem at an empty \<^verbatim>\<open>REDIS_URL\<close>, with the agent configured.\<close>

theorem no_redis_url_store_untouched_witness:
  "filter is_store_read (fst (app_home_opened_callback
      (example_world (Some []) (Some ''https://agent'') (Inr (Some ''openai'', Some ''gpt-4o''))
         None None) example_event)) = []
   \<and> filter is_store_write (fst (app_home_opened_callback
      (example_world (Some []) (Some ''https://agent'') (Inr (Some ''openai'', Some ''gpt-4o''))
         None None) example_event)) = []"
  using no_redis_url_store_untouched [of
      "example_world (Some []) (Some ''https://agent'') (Inr (Some ''openai'', Some ''gpt-4o''))
         None None" example_event]
  by (simp add: example_world_simps)


subsection \<open>The default provider\<close>





lemma registry_read_once:
  assumes "event ''tab'' = Some ''home''" and "event ''user'' = Some user_id"
    and "get_available_providers w = Inr registry"
  shows "filter is_registry_read (fst (app_home_opened_callback w event)) =
           [Call_get_available_providers]"
proof -
  obtain t p m where r: "read_user_state w user_id (environ w ''REDIS_URL'') = (t, p, m)"
    by (cases "read_user_state w user_id (environ w ''REDIS_URL'')")
  obtain s io where s:
    "select_initial w user_id (environ w ''REDIS_URL'') (build_options (str_lower w) registry) p m = (s, io)"
    by (cases "select_initial w user_id (environ w ''REDIS_URL'') (build_options (str_lower w) registry) p m")
  have "filter is_registry_read t = []"
    using read_user_state_registry [of w user_id "environ w ''REDIS_URL''"] r by simp
  moreover have "filter is_registry_read s = []"
    using select_initial_registry [of w user_id "environ w ''REDIS_URL''" "build_options (str_lower w) registry" p m]
      s by simp
  ultimately show ?thesis
    by (simp add: callback_home [OF assms] render_home_eq [OF r s] publish_home_registry)
qed

text \<open>The dropdown of every invocation that passes line 30.\<close>

lemma dropdown_shape:
  assumes "event ''tab'' = Some ''home''" and "event ''user'' = Some user_id"
    and "get_available_providers w = Inr registry"
    and "read_user_state w user_id (environ w ''REDIS_URL'') = (t, p, m)"
    and "select_initial w user_id (environ w ''REDIS_URL'') (build_options (str_lower w) registry) p m = (s, io)"
  shows "\<exists>initial. pick_initial io (add_placeholder w (build_options (str_lower w) registry) io) = Inr initial
           \<and> dropdowns (fst (app_home_opened_callback w event)) =
               [Static_select initial (add_placeholder w (build_options (str_lower w) registry) io)
                  ''pick_a_provider'']
           \<and> published (fst (app_home_opened_callback w event)) =
               [(user_id, home_view initial (add_placeholder w (build_options (str_lower w) registry) io))]"
proof -
  obtain initial where
    p: "pick_initial io (add_placeholder w (build_options (str_lower w) registry) io) = Inr initial"
    using pick_initial_add_placeholder by blast
  show ?thesis
    using dropdowns_callback [OF assms p] p by blast
qed

lemma add_placeholder_cases:
  "add_placeholder w opts io = opts
     \<or> (\<exists>label. add_placeholder w opts io = opts @ [placeholder label])"
  by (auto simp: add_placeholder_def Let_def)

subsection \<open>The options\<close>

text \<open>
  Claim C3. Every invocation that passes line 30 reads the registry once and builds the
  list of options from what it returns: the list is as long as the registry's items, and
  the option at each position has the label \<^verbatim>\<open>name (provider)\<close> and the value
  \<^verbatim>\<open>model_name provider.lower()\<close> of the item at that position. The published dropdown
  holds these options, in this order, followed by nothing or by the placeholder.
\<close>

theorem options_built_from_registry:
  assumes "event ''tab'' = Some ''home''" and "event ''user'' = Some user_id"
    and "get_available_providers w = Inr registry"
  shows "filter is_registry_read (fst (app_home_opened_callback w event)) =
           [Call_get_available_providers]
         \<and> (\<exists>d. dropdowns (fst (app_home_opened_callback w event)) = [d]
               \<and> (sel_options d = build_options (str_lower w) registry
                    \<or> (\<exists>label. sel_options d = build_options (str_lower w) registry @ [placeholder label])))
         \<and> length (build_options (str_lower w) registry) = length registry
         \<and> (\<forall>i<length registry.
               build_options (str_lower w) registry ! i =
                 \<lparr>opt_text =
                    \<lparr>tx_type = ''plain_text'',
                     tx_text = mi_name (snd (registry ! i)) @ '' (''
                                 @ mi_provider (snd (registry ! i)) @ '')'',
                     tx_emoji = True\<rparr>,
                  opt_value = fst (registry ! i) @ '' ''
                                @ str_lower w (mi_provider (snd (registry ! i)))\<rparr>)"
proof -
  obtain t p m where r: "read_user_state w user_id (environ w ''REDIS_URL'') = (t, p, m)"
    by (cases "read_user_state w user_id (environ w ''REDIS_URL'')")
  obtain s io where s:
    "select_initial w user_id (environ w ''REDIS_URL'') (build_options (str_lower w) registry) p m = (s, io)"
    by (cases "select_initial w user_id (environ w ''REDIS_URL'') (build_options (str_lower w) registry) p m")
  obtain initial where d: "dropdowns (fst (app_home_opened_callback w event)) =
      [Static_select initial (add_placeholder w (build_options (str_lower w) registry) io) ''pick_a_provider'']"
    using dropdown_shape [OF assms r s] by blast
  have a: "\<exists>d. dropdowns (fst (app_home_opened_callback w event)) = [d]
               \<and> (sel_options d = build_options (str_lower w) registry
                    \<or> (\<exists>label. sel_options d = build_options (str_lower w) registry @ [placeholder label]))"
    using d add_placeholder_cases [of w "build_options (str_lower w) registry" io] by auto
  have b: "length (build_options (str_lower w) registry) = length registry"
    by (simp add: build_options_def)
  have c: "\<forall>i<length registry.
               build_options (str_lower w) registry ! i =
                 \<lparr>opt_text =
                    \<lparr>tx_type = ''plain_text'',
                     tx_text = mi_name (snd (registry ! i)) @ '' (''
                                 @ mi_provider (snd (registry ! i)) @ '')'',
                     tx_emoji = True\<rparr>,
                  opt_value = fst (registry ! i) @ '' ''
                                @ str_lower w (mi_provider (snd (registry ! i)))\<rparr>"
    by (simp add: build_options_def case_prod_beta)
  show ?thesis
    using registry_read_once [OF assms] a b c by blast
qed


text \<open>The theorem at the registry of two models.\<close>

theorem options_built_from_registry_witness:
  "filter is_registry_read (fst (app_home_opened_callback
      (example_world None None (Inl (Error ''unused'')) None None) example_event)) =
     [Call_get_available_providers]
   \<and> length (build_options ascii_lower example_registry) = 2
   \<and> build_options ascii_lower example_registry ! 0 =
       \<lparr>opt_text = \<lparr>tx_type = ''plain_text'', tx_text = ''GPT-4o (OpenAI)'', tx_emoji = True\<rparr>,
        opt_value = ''gpt-4o openai''\<rparr>
   \<and> build_options ascii_lower example_registry ! 1 =
       \<lparr>opt_text = \<lparr>tx_type = ''plain_text'', tx_text = ''GenAI Agent (GenAI)'',
                    tx_emoji = True\<rparr>,
        opt_value = ''genai-agent genai''\<rparr>"
proof -
  let ?w = "example_world None None (Inl (Error ''unused'')) None None"
  note t = options_built_from_registry [of example_event "''U1''" ?w example_registry,
      OF example_event_simps example_world_simps(4), unfolded example_world_simps(1)]
  have l: "length example_registry = 2"
    by (simp add: example_registry_def)
  from t have a: "filter is_registry_read (fst (app_home_opened_callback ?w example_event)) =
     [Call_get_available_providers]" and b: "length (build_options ascii_lower example_registry) = 2"
    by (simp_all add: l)
  from t have "\<forall>i<2. build_options ascii_lower example_registry ! i =
                 \<lparr>opt_text =
                    \<lparr>tx_type = ''plain_text'',
                     tx_text = mi_name (snd (example_registry ! i)) @ '' (''
                                 @ mi_provider (snd (example_registry ! i)) @ '')'',
                     tx_emoji = True\<rparr>,
                  opt_value = fst (example_registry ! i) @ '' ''
                                @ ascii_lower (mi_provider (snd (example_registry ! i)))\<rparr>"
    unfolding l by blast
  then have "build_options ascii_lower example_registry ! 0 =
       \<lparr>opt_text = \<lparr>tx_type = ''plain_text'', tx_text = ''GPT-4o (OpenAI)'', tx_emoji = True\<rparr>,
        opt_value = ''gpt-4o openai''\<rparr>"
    and "build_options ascii_lower example_registry ! 1 =
       \<lparr>opt_text = \<lparr>tx_type = ''plain_text'', tx_text = ''GenAI Agent (GenAI)'',
                    tx_emoji = True\<rparr>,
        opt_value = ''genai-agent genai''\<rparr>"
    by (simp_all add: example_registry_def ascii_lower_def)
  with a b show ?thesis by simp
qed

lemma save_default_other_read:
  "save_default (w\<lparr>get_redis_user_state := g\<rparr>) user_id r xs = save_default w user_id r xs"
  by (simp add: save_default_def split: option.splits)

lemma default_selection_other_read:
  "default_selection (w\<lparr>get_redis_user_state := g\<rparr>) user_id r opts =
     default_selection w user_id r opts"
  by (simp add: default_selection_def save_default_other_read)

lemma add_placeholder_other_read:
  "add_placeholder (w\<lparr>get_redis_user_state := g\<rparr>) opts io = add_placeholder w opts io"
  by (simp add: add_placeholder_def)

lemma publish_home_other_read:
  "publish_home (w\<lparr>get_redis_user_state := g\<rparr>) user_id opts io =
     publish_home w user_id opts io"
  by (simp add: publish_home_def split: sum.splits)

subsection \<open>A failing read\<close>

text \<open>
  Claim C4, as amended. When the read of the store raises, the failure is printed to
  standard output (line 43), provider and model stay \<^verbatim>\<open>None\<close>, the branch of lines 52
  to 66 is taken, and the procedure returns \<^verbatim>\<open>None\<close>: nothing is raised. Its effects
  after the printed failure are the effects of the same invocation with a store that
  returns (\<^verbatim>\<open>None\<close>, \<^verbatim>\<open>None\<close>).
\<close>

theorem read_failure_as_no_preference:
  assumes "event ''tab'' = Some ''home''" and "event ''user'' = Some user_id"
    and "get_available_providers w = Inr registry"
    and "environ w ''REDIS_URL'' = Some url" and "url \<noteq> []"
    and "get_redis_user_state w user_id True url = Inl e"
  shows "snd (app_home_opened_callback w event) = Inr ()
         \<and> read_user_state w user_id (Some url) =
             ([Call_get_redis_user_state user_id True url, Print (Get_state_failed e)],
              None, None)
         \<and> select_initial w user_id (Some url) (build_options (str_lower w) registry) None None =
             default_selection w user_id (Some url) (build_options (str_lower w) registry)
         \<and> (\<exists>rest.
               fst (app_home_opened_callback w event) =
                 Print (Home_opened user_id) # Call_get_available_providers
                   # Call_get_redis_user_state user_id True url
                   # Print (Get_state_failed e) # rest
             \<and> app_home_opened_callback
                 (w\<lparr>get_redis_user_state := \<lambda>user_id flag url. Inr (None, None)\<rparr>) event =
                 (Print (Home_opened user_id) # Call_get_available_providers
                    # Call_get_redis_user_state user_id True url # rest, Inr ()))"
proof -
  let ?opts = "build_options (str_lower w) registry"
  let ?w' = "w\<lparr>get_redis_user_state := \<lambda>user_id flag url. Inr (None, None)\<rparr>"
  have r: "read_user_state w user_id (Some url) =
             ([Call_get_redis_user_state user_id True url, Print (Get_state_failed e)],
              None, None)"
    using assms(5,6) by (simp add: read_user_state_def)
  have r': "read_user_state ?w' user_id (Some url) =
             ([Call_get_redis_user_state user_id True url], None, None)"
    using assms(5) by (simp add: read_user_state_def)
  have d: "select_initial w user_id (Some url) ?opts None None =
             default_selection w user_id (Some url) ?opts"
    and d': "select_initial ?w' user_id (Some url) ?opts None None =
             default_selection w user_id (Some url) ?opts"
    by (simp_all add: select_initial_def default_selection_other_read)
  obtain s io where s: "default_selection w user_id (Some url) ?opts = (s, io)"
    by (cases "default_selection w user_id (Some url) ?opts")
  let ?rest = "s @ publish_home w user_id (add_placeholder w ?opts io) io"
  have 1: "app_home_opened_callback w event =
             (Print (Home_opened user_id) # Call_get_available_providers
                # Call_get_redis_user_state user_id True url
                # Print (Get_state_failed e) # ?rest, Inr ())"
    using assms(4) r d s by (simp add: callback_home [OF assms(1-3)] render_home_def)
  have 2: "app_home_opened_callback ?w' event =
             (Print (Home_opened user_id) # Call_get_available_providers
                # Call_get_redis_user_state user_id True url # ?rest, Inr ())"
    using assms(1-4) r' d' s
    by (simp add: app_home_opened_callback_def render_home_def add_placeholder_other_read
        publish_home_other_read)
  show ?thesis
    using 1 2 r d by simp
qed

text \<open>The theorem at a store whose read times out.\<close>

theorem read_failure_as_no_preference_witness:
  "app_home_opened_callback
      (example_world (Some ''redis://cache'') None (Inl (Error ''timeout'')) None None)
      example_event =
     ([Print (Home_opened ''U1''), Call_get_available_providers,
       Call_get_redis_user_state ''U1'' True ''redis://cache'',
       Print (Get_state_failed (Error ''timeout'')),
       Print (No_provider_selection ''U1''),
       Call_views_publish ''U1''
         (home_view (placeholder ''Select a provider'')
            [gpt_option, genai_option, placeholder ''Select a provider'']),
       Print (Published_home ''U1'')], Inr ())"
proof -
  let ?w = "example_world (Some ''redis://cache'') None (Inl (Error ''timeout'')) None None"
  note t = read_failure_as_no_preference [of example_event "''U1''" ?w example_registry
      "''redis://cache''" "Error ''timeout''"]
  have "snd (app_home_opened_callback ?w example_event) = Inr ()"
    using t by (simp add: example_event_simps example_world_simps)
  moreover have "fst (app_home_opened_callback ?w example_event) =
      [Print (Home_opened ''U1''), Call_get_available_providers,
       Call_get_redis_user_state ''U1'' True ''redis://cache'',
       Print (Get_state_failed (Error ''timeout'')),
       Print (No_provider_selection ''U1''),
       Call_views_publish ''U1''
         (home_view (placeholder ''Select a provider'')
            [gpt_option, genai_option, placeholder ''Select a provider'']),
       Print (Published_home ''U1'')]"
    by (simp add: app_home_opened_callback_def example_event_simps example_world_simps
        render_home_def read_user_state_def select_initial_def default_selection_def
        add_placeholder_def publish_home_def pick_initial_def build_example)
  ultimately show ?thesis
    by (simp add: prod_eq_iff)
qed

text \<open>
  The failure is not handed to the logger: with a read that raises, and a publish call
  that succeeds, the list of effects has no call of \<^verbatim>\<open>logger.error\<close>.
\<close>

theorem read_failure_not_logged_counterexample:
  "get_redis_user_state
      (example_world (Some ''redis://cache'') None (Inl (Error ''timeout'')) None None)
      ''U1'' True ''redis://cache'' = Inl (Error ''timeout'')
   \<and> filter is_logger_error (fst (app_home_opened_callback
        (example_world (Some ''redis://cache'') None (Inl (Error ''timeout'')) None None)
        example_event)) = []"
proof -
  let ?w = "example_world (Some ''redis://cache'') None (Inl (Error ''timeout'')) None None"
  have "app_home_opened_callback ?w example_event =
     ([Print (Home_opened ''U1''), Call_get_available_providers,
       Call_get_redis_user_state ''U1'' True ''redis://cache'',
       Print (Get_state_failed (Error ''timeout'')),
       Print (No_provider_selection ''U1''),
       Call_views_publish ''U1''
         (home_view (placeholder ''Select a provider'')
            [gpt_option, genai_option, placeholder ''Select a provider'']),
       Print (Published_home ''U1'')], Inr ())"
    by (simp add: app_home_opened_callback_def example_event_simps example_world_simps
        render_home_def read_user_state_def select_initial_def default_selection_def
        add_placeholder_def publish_home_def pick_initial_def build_example)
  then show ?thesis
    by (simp add: example_world_simps)
qed

subsection \<open>Writes to the store\<close>

lemma select_initial_writes:
  "filter is_store_write (fst (select_initial w user_id r opts p m)) =
     (case r of
        None \<Rightarrow> []
      | Some url \<Rightarrow>
          if url \<noteq> [] \<and> \<not> (truthy p \<and> truthy m) \<and> truthy (environ w ''GENAI_API_URL'')
             \<and> list_ex (\<lambda>opt. startswith (opt_value opt) ''genai-agent'') opts
          then [Call_set_redis_user_state user_id ''genai'' ''genai-agent'' url] else [])"
proof (cases "truthy p \<and> truthy m")
  case True
  then obtain p' m' where "p = Some p'" "m = Some m'" "p' \<noteq> []" "m' \<noteq> []"
    by (cases p; cases m) auto
  then show ?thesis
    by (simp add: select_initial_def saved_selection_def Let_def split: option.splits)
next
  case False
  have e: "list_ex P xs \<Longrightarrow> filter P xs \<noteq> []" for P and xs :: "select_option list"
    by (induction xs) auto
  show ?thesis
    using False e [of "\<lambda>opt. startswith (opt_value opt) ''genai-agent''" opts]
    by (auto simp: select_initial_default [OF False] default_selection_def Let_def
        save_default_writes split: option.splits)
qed

lemma store_writes_callback:
  assumes "event ''tab'' = Some ''home''" and "event ''user'' = Some user_id"
    and "get_available_providers w = Inr registry"
    and "read_user_state w user_id (environ w ''REDIS_URL'') = (t, provider, model)"
  shows "filter is_store_write (fst (app_home_opened_callback w event)) =
           filter is_store_write
             (fst (select_initial w user_id (environ w ''REDIS_URL'') (build_options (str_lower w) registry)
                     provider model))"
proof -
  let ?opts = "build_options (str_lower w) registry"
  let ?r = "environ w ''REDIS_URL''"
  obtain s io where s: "select_initial w user_id ?r ?opts provider model = (s, io)"
    by (cases "select_initial w user_id ?r ?opts provider model")
  have t: "filter is_store_write t = []"
    using read_user_state_writes [of w user_id ?r] assms(4) by simp
  show ?thesis
    by (simp add: callback_home [OF assms(1-3)] render_home_eq [OF assms(4) s] t
        publish_home_writes s)
qed

text \<open>
  Claim C6, as amended. An invocation that passes line 30 writes to the store in one
  situation only: \<^verbatim>\<open>REDIS_URL\<close> is a non-empty string, no saved pair is available
  after lines 32 to 44, \<^verbatim>\<open>GENAI_API_URL\<close> is a non-empty string and some option's value
  starts with \<^verbatim>\<open>genai-agent\<close>. It then makes the single call
  \<^verbatim>\<open>set_redis_user_state(user_id, "genai", "genai-agent", redis_url)\<close> of line 62.
  In every other situation it makes no write.
\<close>

theorem store_written_only_for_default:
  assumes "event ''tab'' = Some ''home''" and "event ''user'' = Some user_id"
    and "get_available_providers w = Inr registry"
    and "read_user_state w user_id (environ w ''REDIS_URL'') = (t, provider, model)"
  shows "filter is_store_write (fst (app_home_opened_callback w event)) =
           (case environ w ''REDIS_URL'' of
              None \<Rightarrow> []
            | Some url \<Rightarrow>
                if url \<noteq> [] \<and> \<not> (truthy provider \<and> truthy model)
                   \<and> truthy (environ w ''GENAI_API_URL'')
                   \<and> list_ex (\<lambda>opt. startswith (opt_value opt) ''genai-agent'')
                        (build_options (str_lower w) registry)
                then [Call_set_redis_user_state user_id ''genai'' ''genai-agent'' url]
                else [])"
  unfolding store_writes_callback [OF assms]
  by (rule select_initial_writes)

text \<open>
  The theorem at a store that holds a saved pair (no write), and at a store whose read
  raises (one write, attempted although it fails).
\<close>

theorem store_written_only_for_default_witness:
  "filter is_store_write (fst (app_home_opened_callback
      (example_world (Some ''redis://cache'') (Some ''https://agent'')
         (Inr (Some ''openai'', Some ''gpt-4o'')) None None) example_event)) = []
   \<and> filter is_store_write (fst (app_home_opened_callback
      (example_world (Some ''redis://cache'') (Some ''https://agent'')
         (Inl (Error ''timeout'')) (Some (Error ''down'')) None) example_event)) =
     [Call_set_redis_user_state ''U1'' ''genai'' ''genai-agent'' ''redis://cache'']"
  using store_written_only_for_default [of example_event "''U1''"
      "example_world (Some ''redis://cache'') (Some ''https://agent'')
         (Inr (Some ''openai'', Some ''gpt-4o'')) None None"
      example_registry "[Call_get_redis_user_state ''U1'' True ''redis://cache'']"
      "Some ''openai''" "Some ''gpt-4o''"]
    store_written_only_for_default [of example_event "''U1''"
      "example_world (Some ''redis://cache'') (Some ''https://agent'')
         (Inl (Error ''timeout'')) (Some (Error ''down'')) None"
      example_registry "[Call_get_redis_user_state ''U1'' True ''redis://cache'',
                         Print (Get_state_failed (Error ''timeout''))]"
      None None]
  by (simp add: example_event_simps example_world_simps read_user_state_def build_example
      startswith_example)

text \<open>
  The claim that nothing is ever written fails: with both variables set and a store that
  returns (\<^verbatim>\<open>None\<close>, \<^verbatim>\<open>None\<close>), line 62 saves the default selection.
\<close>

theorem default_saved_counterexample:
  "filter is_store_write (fst (app_home_opened_callback
      (example_world (Some ''redis://cache'') (Some ''https://agent'')
         (Inr (None, None)) None None) example_event)) =
     [Call_set_redis_user_state ''U1'' ''genai'' ''genai-agent'' ''redis://cache'']"
  by (simp add: app_home_opened_callback_def example_event_simps example_world_simps
      render_home_def read_user_state_def select_initial_def default_selection_def
      save_default_def add_placeholder_def publish_home_def pick_initial_def build_example
      startswith_example)


subsection \<open>A stale selection\<close>

text \<open>
  Claim C7, as amended. When the store returns a non-empty provider and model and no
  option's value starts with the saved model, \<^verbatim>\<open>GENAI_API_URL\<close> is a non-empty string
  and some option's value starts with \<^verbatim>\<open>genai-agent\<close>, the initial option of the
  published dropdown is the placeholder labelled
  \<^verbatim>\<open>Select a provider (GenAI used as fallback)\<close>, with value \<^verbatim>\<open>null\<close>, appended after the
  options of the registry. The option of the agent is not selected and nothing is
  written to the store.
\<close>

theorem stale_model_placeholder:
  assumes "event ''tab'' = Some ''home''" and "event ''user'' = Some user_id"
    and "get_available_providers w = Inr registry"
    and "environ w ''REDIS_URL'' = Some url" and "url \<noteq> []"
    and "get_redis_user_state w user_id True url = Inr (Some provider, Some model)"
    and "provider \<noteq> []" and "model \<noteq> []"
    and "filter (\<lambda>x. startswith (opt_value x) model) (build_options (str_lower w) registry) = []"
    and "environ w ''GENAI_API_URL'' = Some genai_api_url" and "genai_api_url \<noteq> []"
    and "list_ex (\<lambda>opt. startswith (opt_value opt) ''genai-agent'') (build_options (str_lower w) registry)"
  shows "dropdowns (fst (app_home_opened_callback w event)) =
           [Static_select (placeholder ''Select a provider (GenAI used as fallback)'')
              (build_options (str_lower w) registry
                 @ [placeholder ''Select a provider (GenAI used as fallback)''])
              ''pick_a_provider'']
         \<and> opt_value (placeholder ''Select a provider (GenAI used as fallback)'') = ''null''
         \<and> filter is_store_write (fst (app_home_opened_callback w event)) = []"
proof -
  let ?opts = "build_options (str_lower w) registry"
  let ?ph = "placeholder ''Select a provider (GenAI used as fallback)''"
  have r: "read_user_state w user_id (environ w ''REDIS_URL'') =
             ([Call_get_redis_user_state user_id True url], Some provider, Some model)"
    using assms(4-6) by (simp add: read_user_state_def)
  have s: "select_initial w user_id (environ w ''REDIS_URL'') ?opts (Some provider) (Some model) =
           ([Print (Retrieved_state user_id provider model),
             Print (No_matching_option model)], Some [])"
    using assms(7-9) by (simp add: select_initial_def saved_selection_def)
  have a: "add_placeholder w ?opts (Some []) = ?opts @ [?ph]"
    using assms(10-12) by (simp add: add_placeholder_def)
  have p: "pick_initial (Some []) (add_placeholder w ?opts (Some [])) = Inr ?ph"
    unfolding a by (simp add: pick_initial_not_chosen)
  have d: "dropdowns (fst (app_home_opened_callback w event)) =
             [Static_select ?ph (?opts @ [?ph]) ''pick_a_provider'']"
    using dropdowns_callback(1) [OF assms(1-3) r s p] by (simp add: a)
  have w: "filter is_store_write (fst (app_home_opened_callback w event)) = []"
    using store_writes_callback [OF assms(1-3) r] s by simp
  show ?thesis
    using d w by (simp add: placeholder_def)
qed


text \<open>The theorem at a store that holds the model \<^verbatim>\<open>claude-3\<close>.\<close>

theorem stale_model_placeholder_witness:
  "dropdowns (fst (app_home_opened_callback
      (example_world (Some ''redis://cache'') (Some ''https://agent'')
         (Inr (Some ''anthropic'', Some ''claude-3'')) None None) example_event)) =
     [Static_select (placeholder ''Select a provider (GenAI used as fallback)'')
        [gpt_option, genai_option, placeholder ''Select a provider (GenAI used as fallback)'']
        ''pick_a_provider'']
   \<and> filter is_store_write (fst (app_home_opened_callback
      (example_world (Some ''redis://cache'') (Some ''https://agent'')
         (Inr (Some ''anthropic'', Some ''claude-3'')) None None) example_event)) = []"
  using stale_model_placeholder [of example_event "''U1''"
      "example_world (Some ''redis://cache'') (Some ''https://agent'')
         (Inr (Some ''anthropic'', Some ''claude-3'')) None None"
      example_registry "''redis://cache''" "''anthropic''" "''claude-3''" "''https://agent''"]
  by (simp add: example_event_simps example_world_simps build_example startswith_example)

text \<open>
  The claim that the option of the agent becomes the initial option fails: the agent is
  configured and has an option, the saved model \<^verbatim>\<open>gpt-3.5\<close> matches nothing, and the
  initial option is the placeholder, whose value does not start with \<^verbatim>\<open>genai-agent\<close>.
\<close>

theorem stale_model_no_genai_counterexample:
  "environ (example_world (Some ''redis://cache'') (Some ''https://agent'')
              (Inr (Some ''openai'', Some ''gpt-3.5'')) None None) ''GENAI_API_URL''
     = Some ''https://agent''
   \<and> list_ex (\<lambda>opt. startswith (opt_value opt) ''genai-agent'')
        (build_options ascii_lower example_registry)
   \<and> filter (\<lambda>x. startswith (opt_value x) ''gpt-3.5'') (build_options ascii_lower example_registry) = []
   \<and> map sel_initial_option (dropdowns (fst (app_home_opened_callback
        (example_world (Some ''redis://cache'') (Some ''https://agent'')
           (Inr (Some ''openai'', Some ''gpt-3.5'')) None None) example_event))) =
      [placeholder ''Select a provider (GenAI used as fallback)'']
   \<and> \<not> startswith (opt_value (placeholder ''Select a provider (GenAI used as fallback)''))
          ''genai-agent''"
proof -
  let ?w = "example_world (Some ''redis://cache'') (Some ''https://agent'')
              (Inr (Some ''openai'', Some ''gpt-3.5'')) None None"
  have "app_home_opened_callback ?w example_event =
     ([Print (Home_opened ''U1''), Call_get_available_providers,
       Call_get_redis_user_state ''U1'' True ''redis://cache'',
       Print (Retrieved_state ''U1'' ''openai'' ''gpt-3.5''),
       Print (No_matching_option ''gpt-3.5''),
       Call_views_publish ''U1''
         (home_view (placeholder ''Select a provider (GenAI used as fallback)'')
            [gpt_option, genai_option,
             placeholder ''Select a provider (GenAI used as fallback)'']),
       Print (Published_home ''U1'')], Inr ())"
    by (simp add: app_home_opened_callback_def example_event_simps example_world_simps
        render_home_def read_user_state_def select_initial_def saved_selection_def
        add_placeholder_def publish_home_def pick_initial_def build_example
        startswith_def gpt_option_def genai_option_def)
  then have "map sel_initial_option (dropdowns (fst (app_home_opened_callback ?w example_event)))
      = [placeholder ''Select a provider (GenAI used as fallback)'']"
    by (simp add: dropdowns_Cons dropdowns_Nil dropdowns_home_view)
  then show ?thesis
    by (simp add: example_world_simps build_example startswith_def gpt_option_def
        genai_option_def placeholder_def)
qed


lemma select_initial_subset:
  assumes "select_initial w user_id r opts p m = (s, Some xs)"
  shows "set xs \<subseteq> set opts"
proof (cases "truthy p \<and> truthy m")
  case True
  then obtain p' m' where "p = Some p'" "m = Some m'" "p' \<noteq> []" "m' \<noteq> []"
    by (cases p; cases m) auto
  with assms show ?thesis
    by (auto simp: select_initial_def saved_selection_def Let_def)
next
  case False
  with assms show ?thesis
    by (auto simp: select_initial_default [OF False] default_selection_def Let_def
        split: if_splits)
qed

subsection \<open>The initial option is one of the options\<close>

text \<open>
  Claim C8. In every invocation that reaches the publish step, exactly one dropdown is
  published, its list of options is non-empty and its initial option is an element of
  that list. When the variable \<^verbatim>\<open>initial_option\<close> of line 69 is a non-empty list, the
  options are the options of the registry and the initial option is the first element of
  that list; otherwise the options are the options of the registry followed by the
  initial option, which is the placeholder with value \<^verbatim>\<open>null\<close>.
\<close>

theorem initial_option_in_options:
  assumes "event ''tab'' = Some ''home''" and "event ''user'' = Some user_id"
    and "get_available_providers w = Inr registry"
    and "read_user_state w user_id (environ w ''REDIS_URL'') = (t, provider, model)"
    and "select_initial w user_id (environ w ''REDIS_URL'') (build_options (str_lower w) registry)
           provider model = (s, initial_option)"
  shows "\<exists>d. dropdowns (fst (app_home_opened_callback w event)) = [d]
           \<and> sel_options d \<noteq> []
           \<and> sel_initial_option d \<in> set (sel_options d)
           \<and> (chosen initial_option \<longrightarrow>
                 sel_options d = build_options (str_lower w) registry
                 \<and> (\<exists>rest. initial_option = Some (sel_initial_option d # rest)))
           \<and> (\<not> chosen initial_option \<longrightarrow>
                 sel_options d = build_options (str_lower w) registry @ [sel_initial_option d]
                 \<and> opt_value (sel_initial_option d) = ''null'')"
proof -
  let ?opts = "build_options (str_lower w) registry"
  let ?opts' = "add_placeholder w ?opts initial_option"
  obtain initial where p: "pick_initial initial_option ?opts' = Inr initial"
    and d: "dropdowns (fst (app_home_opened_callback w event)) =
              [Static_select initial ?opts' ''pick_a_provider'']"
    using dropdown_shape [OF assms] by blast
  show ?thesis
  proof (cases "chosen initial_option")
    case True
    then obtain x rest where io: "initial_option = Some (x # rest)"
      by (cases initial_option) (auto simp: neq_Nil_conv)
    have "initial = x"
      using p io by (simp add: pick_initial_chosen)
    moreover have "?opts' = ?opts"
      using io by (simp add: add_placeholder_chosen)
    moreover have "x \<in> set ?opts"
      using select_initial_subset [of w user_id "environ w ''REDIS_URL''" ?opts provider model s
          "x # rest"] assms(5) io by simp
    ultimately show ?thesis
      using d io True by auto
  next
    case False
    let ?ph = "placeholder
                 (if truthy (environ w ''GENAI_API_URL'')
                     \<and> list_ex (\<lambda>opt. startswith (opt_value opt) ''genai-agent'') ?opts
                  then ''Select a provider (GenAI used as fallback)''
                  else ''Select a provider'')"
    have a: "?opts' = ?opts @ [?ph]"
      using add_placeholder_not_chosen [OF False] .
    have "initial = ?ph"
      using p pick_initial_not_chosen [OF False, of ?opts ?ph] unfolding a by simp
    moreover have "opt_value ?ph = ''null''"
      by (simp add: placeholder_def)
    ultimately show ?thesis
      using d a False by auto
  qed
qed

text \<open>The theorem at a world with no store and no agent: the placeholder is appended.\<close>

theorem initial_option_in_options_witness:
  "\<exists>d. dropdowns (fst (app_home_opened_callback
           (example_world None None (Inl (Error ''unused'')) None None) example_event)) = [d]
        \<and> sel_options d = [gpt_option, genai_option, sel_initial_option d]
        \<and> opt_value (sel_initial_option d) = ''null''"
  using initial_option_in_options [of example_event "''U1''"
      "example_world None None (Inl (Error ''unused'')) None None"
      example_registry "[]" None None "[Print (No_provider_selection ''U1'')]" None]
  by (auto simp: example_event_simps example_world_simps build_example read_user_state_def
      select_initial_def default_selection_def)


lemma save_default_write_failure:
  assumes "Call_set_redis_user_state u p m url \<in> set (save_default w user_id r xs)"
    and "set_redis_user_state w u p m url = Some e"
  shows "save_default w user_id r xs =
           [Call_set_redis_user_state u p m url, Print_stderr (Error_saving_default e),
            Logger_error (Error_saving_default e)]"
  using assms by (auto simp: save_default_def split: option.splits if_splits)

lemma select_initial_write_failure:
  assumes "Call_set_redis_user_state u p m url
             \<in> set (fst (select_initial w user_id r opts provider model))"
    and "set_redis_user_state w u p m url = Some e"
  shows "\<exists>pre. fst (select_initial w user_id r opts provider model) =
           pre @ [Call_set_redis_user_state u p m url, Print_stderr (Error_saving_default e),
                  Logger_error (Error_saving_default e)]"
proof (cases "truthy provider \<and> truthy model")
  case True
  then obtain p' m' where "provider = Some p'" "model = Some m'" "p' \<noteq> []" "m' \<noteq> []"
    by (cases provider; cases model) auto
  with assms(1) show ?thesis
    by (auto simp: select_initial_def saved_selection_def Let_def split: if_splits)
next
  case False
  let ?xs = "filter (\<lambda>x. startswith (opt_value x) ''genai-agent'') opts"
  have "Call_set_redis_user_state u p m url \<in> set (save_default w user_id r ?xs)"
    and f: "fst (select_initial w user_id r opts provider model) =
          [Print (No_provider_selection user_id), Print (Using_genai_default user_id)]
            @ save_default w user_id r ?xs"
    using assms(1)
    by (auto simp: select_initial_default [OF False] default_selection_def Let_def
        split: if_splits)
  then show ?thesis
    using save_default_write_failure [OF _ assms(2)] by simp
qed

lemma read_user_state_no_write:
  "Call_set_redis_user_state u p m url \<notin> set (fst (read_user_state w user_id r))"
  by (auto simp: read_user_state_def split: option.splits sum.splits)

lemma read_user_state_no_publish:
  "Call_views_publish u v \<notin> set (fst (read_user_state w user_id r))"
  by (auto simp: read_user_state_def split: option.splits sum.splits)

lemma select_initial_no_publish:
  "Call_views_publish u v \<notin> set (fst (select_initial w user_id r opts provider model))"
  by (auto simp: select_initial_def saved_selection_def default_selection_def Let_def
      save_default_def split: option.splits if_splits)

subsection \<open>Failing write and failing publish\<close>

text \<open>
  Claim C5. An invocation that passes line 30 returns \<^verbatim>\<open>None\<close> whatever the write to
  the store and the publish call answer: their exceptions do not leave the procedure.
  It makes at most one write and exactly one publish call (no retry). A write that
  raises is followed by its message on standard error, its entry in the logger and then
  the publish call; a publish call that raises is followed by its message on standard
  error and its entry in the logger, and nothing else.
\<close>

theorem write_and_publish_failures_caught:
  assumes "event ''tab'' = Some ''home''" and "event ''user'' = Some user_id"
    and "get_available_providers w = Inr registry"
  shows "snd (app_home_opened_callback w event) = Inr ()
         \<and> length (filter is_store_write (fst (app_home_opened_callback w event))) \<le> 1
         \<and> length (published (fst (app_home_opened_callback w event))) = 1
         \<and> (\<forall>u p m url e.
               Call_set_redis_user_state u p m url \<in> set (fst (app_home_opened_callback w event))
               \<and> set_redis_user_state w u p m url = Some e \<longrightarrow>
               (\<exists>pre v post. fst (app_home_opened_callback w event) =
                  pre @ [Call_set_redis_user_state u p m url,
                         Print_stderr (Error_saving_default e),
                         Logger_error (Error_saving_default e),
                         Call_views_publish user_id v] @ post))
         \<and> (\<forall>u v e.
               Call_views_publish u v \<in> set (fst (app_home_opened_callback w event))
               \<and> views_publish w u v = Some e \<longrightarrow>
               (\<exists>pre. fst (app_home_opened_callback w event) =
                  pre @ [Call_views_publish u v, Print_stderr (Error_publishing e),
                         Logger_error (Exception_object e)]))"
proof -
  let ?opts = "build_options (str_lower w) registry"
  let ?r = "environ w ''REDIS_URL''"
  let ?tr = "fst (app_home_opened_callback w event)"
  obtain t provider model where r: "read_user_state w user_id ?r = (t, provider, model)"
    by (cases "read_user_state w user_id ?r")
  obtain s io where s: "select_initial w user_id ?r ?opts provider model = (s, io)"
    by (cases "select_initial w user_id ?r ?opts provider model")
  let ?opts' = "add_placeholder w ?opts io"
  obtain initial where p: "pick_initial io ?opts' = Inr initial"
    using pick_initial_add_placeholder by blast
  let ?v = "home_view initial ?opts'"
  let ?tail = "case views_publish w user_id ?v of
                 None \<Rightarrow> [Print (Published_home user_id)]
               | Some e \<Rightarrow> [Print_stderr (Error_publishing e),
                            Logger_error (Exception_object e)]"
  let ?pre = "Print (Home_opened user_id) # Call_get_available_providers # t"
  have tr: "?tr = ?pre @ s @ Call_views_publish user_id ?v # ?tail"
    by (simp add: callback_home [OF assms] render_home_eq [OF r s] publish_home_effects [OF p])
  have 1: "snd (app_home_opened_callback w event) = Inr ()"
    by (simp add: callback_home [OF assms])
  have 2: "length (filter is_store_write ?tr) \<le> 1"
    unfolding store_writes_callback [OF assms r]
    by (simp add: select_initial_writes split: option.splits)
  have 3: "length (published ?tr) = 1"
    using dropdowns_callback(2) [OF assms r s p] by simp
  have t_no_write: "Call_set_redis_user_state u p m url \<notin> set t" for u p m url
    using read_user_state_no_write [of u p m url w user_id ?r] r by simp
  have t_no_publish: "Call_views_publish u v \<notin> set t" for u v
    using read_user_state_no_publish [of u v w user_id ?r] r by simp
  have s_no_publish: "Call_views_publish u v \<notin> set s" for u v
    using select_initial_no_publish [of u v w user_id ?r ?opts provider model] s by simp
  have 4: "\<exists>pre v post. ?tr =
              pre @ [Call_set_redis_user_state u p m url,
                     Print_stderr (Error_saving_default e),
                     Logger_error (Error_saving_default e),
                     Call_views_publish user_id v] @ post"
    if a: "Call_set_redis_user_state u p m url \<in> set ?tr"
      and b: "set_redis_user_state w u p m url = Some e" for u p m url e
  proof -
    have "Call_set_redis_user_state u p m url \<in> set s"
      using a t_no_write unfolding tr by (auto split: option.splits)
    then obtain pre where "s = pre @ [Call_set_redis_user_state u p m url,
        Print_stderr (Error_saving_default e), Logger_error (Error_saving_default e)]"
      using select_initial_write_failure [of u p m url w user_id ?r ?opts provider model e] s b
      by auto
    then have "?tr = (?pre @ pre) @ [Call_set_redis_user_state u p m url,
        Print_stderr (Error_saving_default e), Logger_error (Error_saving_default e),
        Call_views_publish user_id ?v] @ ?tail"
      unfolding tr by simp
    then show ?thesis by blast
  qed
  have 5: "\<exists>pre. ?tr = pre @ [Call_views_publish u v, Print_stderr (Error_publishing e),
                         Logger_error (Exception_object e)]"
    if a: "Call_views_publish u v \<in> set ?tr" and b: "views_publish w u v = Some e" for u v e
  proof -
    have "u = user_id \<and> v = ?v"
      using a t_no_publish s_no_publish unfolding tr by (auto split: option.splits)
    then have "?tr = (?pre @ s) @ [Call_views_publish u v, Print_stderr (Error_publishing e),
                         Logger_error (Exception_object e)]"
      using b unfolding tr by simp
    then show ?thesis by blast
  qed
  show ?thesis
    using 1 2 3 4 5 by blast
qed


text \<open>The theorem at a world where both the write and the publish call raise.\<close>

theorem write_and_publish_failures_caught_witness:
  "snd (app_home_opened_callback
      (example_world (Some ''redis://cache'') (Some ''https://agent'') (Inr (None, None))
         (Some (Error ''down'')) (Some (Error ''rate limited''))) example_event) = Inr ()
   \<and> (\<exists>pre v post. fst (app_home_opened_callback
      (example_world (Some ''redis://cache'') (Some ''https://agent'') (Inr (None, None))
         (Some (Error ''down'')) (Some (Error ''rate limited''))) example_event) =
        pre @ [Call_set_redis_user_state ''U1'' ''genai'' ''genai-agent'' ''redis://cache'',
               Print_stderr (Error_saving_default (Error ''down'')),
               Logger_error (Error_saving_default (Error ''down'')),
               Call_views_publish ''U1'' v] @ post)
   \<and> (\<exists>pre. fst (app_home_opened_callback
      (example_world (Some ''redis://cache'') (Some ''https://agent'') (Inr (None, None))
         (Some (Error ''down'')) (Some (Error ''rate limited''))) example_event) =
        pre @ [Call_views_publish ''U1'' (home_view genai_option [gpt_option, genai_option]),
               Print_stderr (Error_publishing (Error ''rate limited'')),
               Logger_error (Exception_object (Error ''rate limited''))])"
proof -
  let ?w = "example_world (Some ''redis://cache'') (Some ''https://agent'') (Inr (None, None))
              (Some (Error ''down'')) (Some (Error ''rate limited''))"
  let ?tr = "fst (app_home_opened_callback ?w example_event)"
  have tr: "?tr =
      [Print (Home_opened ''U1''), Call_get_available_providers,
       Call_get_redis_user_state ''U1'' True ''redis://cache'',
       Print (No_provider_selection ''U1''), Print (Using_genai_default ''U1''),
       Call_set_redis_user_state ''U1'' ''genai'' ''genai-agent'' ''redis://cache'',
       Print_stderr (Error_saving_default (Error ''down'')),
       Logger_error (Error_saving_default (Error ''down'')),
       Call_views_publish ''U1'' (home_view genai_option [gpt_option, genai_option]),
       Print_stderr (Error_publishing (Error ''rate limited'')),
       Logger_error (Exception_object (Error ''rate limited''))]"
    by (simp add: app_home_opened_callback_def example_event_simps example_world_simps
        render_home_def read_user_state_def select_initial_def default_selection_def
        save_default_def add_placeholder_def publish_home_def pick_initial_def build_example
        startswith_example)
  have a: "Call_set_redis_user_state ''U1'' ''genai'' ''genai-agent'' ''redis://cache'' \<in> set ?tr"
    and b: "Call_views_publish ''U1'' (home_view genai_option [gpt_option, genai_option])
              \<in> set ?tr"
    unfolding tr by simp_all
  have c: "set_redis_user_state ?w ''U1'' ''genai'' ''genai-agent'' ''redis://cache''
             = Some (Error ''down'')"
    and d: "views_publish ?w ''U1'' (home_view genai_option [gpt_option, genai_option])
             = Some (Error ''rate limited'')"
    by (simp_all add: example_world_simps)
  note t = write_and_publish_failures_caught [of example_event "''U1''" ?w example_registry,
      OF example_event_simps example_world_simps(4)]
  from t have "snd (app_home_opened_callback ?w example_event) = Inr ()"
    by blast
  moreover from t a c have "\<exists>pre v post. ?tr =
        pre @ [Call_set_redis_user_state ''U1'' ''genai'' ''genai-agent'' ''redis://cache'',
               Print_stderr (Error_saving_default (Error ''down'')),
               Logger_error (Error_saving_default (Error ''down'')),
               Call_views_publish ''U1'' v] @ post"
    by blast
  moreover from t b d have "\<exists>pre. ?tr =
        pre @ [Call_views_publish ''U1'' (home_view genai_option [gpt_option, genai_option]),
               Print_stderr (Error_publishing (Error ''rate limited'')),
               Logger_error (Exception_object (Error ''rate limited''))]"
    by blast
  ultimately show ?thesis
    by blast
qed

end
